theory Spec2Isabelle
  imports Complex_Main
begin

section \<open>Control and transform geometry of \<^verbatim>\<open>src/controls/util.ts\<close>\<close>

text \<open>
  The functions of \<^verbatim>\<open>src/controls/util.ts\<close> are embedded as HOL functions.
  A JavaScript number is modelled as a \<^typ>\<open>real\<close> (rounding, NaN and the infinities of
  IEEE doubles are outside the model). A property access on \<^verbatim>\<open>undefined\<close> raises a
  TypeError in the source; the model returns it as a value.
\<close>

subsection \<open>Data\<close>

datatype error = TypeError

text \<open>\<^verbatim>\<open>Point\<close>: a pair of numbers; \<^verbatim>\<open>new Point()\<close> is the zero vector.\<close>

datatype point = Point (point_x: real) (point_y: real)

text \<open>
  \<^verbatim>\<open>TOriginX | TOriginY\<close>: a symbolic anchor along one axis (start, center, end) or a number.
\<close>

datatype origin = OriginStart | OriginCenter | OriginEnd | OriginNumeric real

text \<open>
  \<^verbatim>\<open>Control\<close>: the position in the unit square and the pixel offsets. The method
  \<^verbatim>\<open>getActionName\<close> of a control is dispatched on the control that receives the call; the
  functions below take the dispatch as their first argument.
\<close>

record control =
  control_x :: real
  control_y :: real
  offsetX :: real
  offsetY :: real

text \<open>\<^verbatim>\<open>TMat2D\<close>: the affine matrix \<^verbatim>\<open>[a, b, c, d, e, f]\<close>.\<close>

datatype tmat2d = TMat2D real real real real real real

text \<open>
  \<^verbatim>\<open>FabricObject\<close>, as far as the functions of this file read it. A field named after a
  method holds what the method returns for this object: \<^verbatim>\<open>canvas_getZoom\<close> is
  \<^verbatim>\<open>canvas?.getZoom()\<close> (\<open>None\<close> without a canvas),
  \<^verbatim>\<open>group_calcTransformMatrix\<close> is \<^verbatim>\<open>group?.calcTransformMatrix()\<close> (\<open>None\<close> without a
  parent group), \<^verbatim>\<open>bbox_vectorFromOrigin\<close> is \<^verbatim>\<open>bbox.vectorFromOrigin\<close>. The record is
  extensible: the functions are defined on \<open>'a fabricObject_scheme\<close>, an object with any
  further attributes (position, size, scale, angle, skew) in its extension \<open>'a\<close>.
\<close>

record fabricObject =
  controls :: "string \<rightharpoonup> control"
  padding :: real
  canvas_getZoom :: "real option"
  getTotalAngle :: real
  getXY :: "origin \<Rightarrow> origin \<Rightarrow> point"
  getRelativeCenterPoint :: point
  group_calcTransformMatrix :: "tmat2d option"
  bbox_vectorFromOrigin :: "point \<Rightarrow> point"
  lockMovementX :: bool
  lockMovementY :: bool
  lockRotation :: bool
  lockScalingX :: bool
  lockScalingY :: bool
  lockSkewingX :: bool
  lockSkewingY :: bool
  lockScalingFlip :: bool

text \<open>\<^verbatim>\<open>Transform\<close>: the two fields that \<^verbatim>\<open>getLocalPoint\<close> destructures.\<close>

record 'o transform =
  target :: 'o
  corner :: string

text \<open>The keys that \<^verbatim>\<open>isLocked\<close> accepts.\<close>

datatype lockingKey =
    LockMovementX | LockMovementY | LockRotation | LockScalingX | LockScalingY
  | LockSkewingX | LockSkewingY | LockScalingFlip

text \<open>
  The object that \<^verbatim>\<open>commonEventInfo\<close> builds; \<open>'p\<close> is what stands for the \<^verbatim>\<open>Point\<close>
  instance of the pointer, its value or its reference in a store.
\<close>

record ('e, 't, 'p) basicTransformEvent =
  event_e :: 'e
  event_transform :: 't
  event_pointer :: 'p

subsection \<open>Origin resolver\<close>

text \<open>
  Modelled from the spec: \<^verbatim>\<open>resolveOrigin\<close> of the absent \<^verbatim>\<open>util/misc/resolveOrigin\<close>.
  Symbolic start gives -0.5, center 0, end 0.5; a number passes through unchanged.
\<close>

fun resolveOrigin :: "origin \<Rightarrow> real" where
  "resolveOrigin OriginStart = - (1/2)"
| "resolveOrigin OriginCenter = 0"
| "resolveOrigin OriginEnd = 1/2"
| "resolveOrigin (OriginNumeric v) = v"

text \<open>
  Modelled from the spec: \<^verbatim>\<open>resolveOriginPoint\<close> of the same absent module, the point of
  the two resolved offsets.
\<close>

definition resolveOriginPoint :: "origin \<Rightarrow> origin \<Rightarrow> point" where
  "resolveOriginPoint originX originY = Point (resolveOrigin originX) (resolveOrigin originY)"

text \<open>
  Modelled from the spec: \<^verbatim>\<open>Point.eq\<close> of the absent \<^verbatim>\<open>Point\<close> class, equality on both
  coordinates.
\<close>

definition point_eq :: "point \<Rightarrow> point \<Rightarrow> bool" where
  "point_eq p q \<longleftrightarrow> point_x p = point_x q \<and> point_y p = point_y q"

definition isTransformCentered :: "origin \<Rightarrow> origin \<Rightarrow> bool" where
  "isTransformCentered originX originY \<longleftrightarrow>
     point_eq (resolveOriginPoint originX originY) (Point 0 0)"

definition invertOrigin :: "origin \<Rightarrow> real" where
  "invertOrigin origin = - resolveOrigin origin + 1/2"

subsection \<open>Action resolver\<close>

text \<open>
  \<^verbatim>\<open>!corner\<close> holds for the empty string. \<^verbatim>\<open>target.controls[corner]\<close> of a corner that
  the object does not have is \<^verbatim>\<open>undefined\<close>, and the call of its method raises.
\<close>

definition getActionFromCorner ::
  "(control \<Rightarrow> 'e \<Rightarrow> control \<Rightarrow> 'a fabricObject_scheme \<Rightarrow> string) \<Rightarrow>
   bool \<Rightarrow> string \<Rightarrow> 'e \<Rightarrow> 'a fabricObject_scheme \<Rightarrow> error + string" where
  "getActionFromCorner getActionName alreadySelected cornr e targt =
     (if cornr = [] \<or> \<not> alreadySelected then Inr ''drag''
      else case controls targt cornr of
             None \<Rightarrow> Inl TypeError
           | Some contrl \<Rightarrow> Inr (getActionName contrl e contrl targt))"

definition isLocked :: "'a fabricObject_scheme \<Rightarrow> lockingKey \<Rightarrow> bool" where
  "isLocked targt lockKey =
     (case lockKey of
        LockMovementX \<Rightarrow> lockMovementX targt
      | LockMovementY \<Rightarrow> lockMovementY targt
      | LockRotation \<Rightarrow> lockRotation targt
      | LockScalingX \<Rightarrow> lockScalingX targt
      | LockScalingY \<Rightarrow> lockScalingY targt
      | LockSkewingX \<Rightarrow> lockSkewingX targt
      | LockSkewingY \<Rightarrow> lockSkewingY targt
      | LockScalingFlip \<Rightarrow> lockScalingFlip targt)"

definition commonEventInfo ::
  "'e \<Rightarrow> 't \<Rightarrow> real \<Rightarrow> real \<Rightarrow> ('e, 't, point) basicTransformEvent" where
  "commonEventInfo eventData transfrm x y =
     \<lparr> event_e = eventData, event_transform = transfrm, event_pointer = Point x y \<rparr>"

subsection \<open>Numbers\<close>

text \<open>\<^verbatim>\<open>Math.round\<close>: the nearest integer, a half rounded up.\<close>

definition js_round :: "real \<Rightarrow> int" where
  "js_round r = \<lfloor>r + 1/2\<rfloor>"

text \<open>The operator \<^verbatim>\<open>%\<close> on numbers: the remainder of the truncated quotient.\<close>

definition js_trunc :: "real \<Rightarrow> int" where
  "js_trunc q = (if 0 \<le> q then \<lfloor>q\<rfloor> else \<lceil>q\<rceil>)"

definition js_rem :: "real \<Rightarrow> real \<Rightarrow> real" where
  "js_rem a b = a - b * of_int (js_trunc (a / b))"

text \<open>\<^verbatim>\<open>Math.atan2(y, x)\<close>, the angle of the vector \<open>(x, y)\<close> in \<open>(-\<pi>, \<pi>]\<close>.\<close>

definition atan2 :: "real \<Rightarrow> real \<Rightarrow> real" where
  "atan2 y x =
     (if 0 < x then arctan (y / x)
      else if x < 0 then (if 0 \<le> y then arctan (y / x) + pi else arctan (y / x) - pi)
      else if 0 < y then pi / 2
      else if y < 0 then - (pi / 2)
      else 0)"

text \<open>
  Modelled from the spec: the constants \<^verbatim>\<open>twoMathPi\<close> and \<^verbatim>\<open>PIBy4\<close> of the absent
  \<^verbatim>\<open>constants\<close> module, a full turn and 45 degrees.
\<close>

definition twoMathPi :: real where
  "twoMathPi = 2 * pi"

definition PIBy4 :: real where
  "PIBy4 = pi / 4"

subsection \<open>Points and planes\<close>

text \<open>
  Modelled from the spec: the methods \<^verbatim>\<open>add\<close>, \<^verbatim>\<open>subtract\<close>, \<^verbatim>\<open>rotate\<close> and
  \<^verbatim>\<open>transform\<close> of the absent \<^verbatim>\<open>Point\<close> class. \<^verbatim>\<open>rotate\<close> turns the point by an
  angle in radians around a pivot.
\<close>

definition point_add :: "point \<Rightarrow> point \<Rightarrow> point" where
  "point_add p q = Point (point_x p + point_x q) (point_y p + point_y q)"

definition point_subtract :: "point \<Rightarrow> point \<Rightarrow> point" where
  "point_subtract p q = Point (point_x p - point_x q) (point_y p - point_y q)"

definition rotateVector :: "point \<Rightarrow> real \<Rightarrow> point" where
  "rotateVector v radians =
     Point (point_x v * cos radians - point_y v * sin radians)
           (point_x v * sin radians + point_y v * cos radians)"

definition point_rotate :: "point \<Rightarrow> real \<Rightarrow> point \<Rightarrow> point" where
  "point_rotate p radians pivot = point_add (rotateVector (point_subtract p pivot) radians) pivot"

fun point_transform :: "point \<Rightarrow> tmat2d \<Rightarrow> point" where
  "point_transform p (TMat2D a b c d e f) =
     Point (a * point_x p + c * point_y p + e) (b * point_x p + d * point_y p + f)"

text \<open>
  Modelled from the spec: \<^verbatim>\<open>sendPointToPlane\<close> of the absent \<^verbatim>\<open>util/misc/planeChange\<close>,
  as this file calls it (the second argument is always \<^verbatim>\<open>undefined\<close> and is left out):
  the point is taken from the plane of the parent group to the world through the group's
  matrix; without a parent group it is the identity.
\<close>

definition sendPointToPlane :: "point \<Rightarrow> tmat2d option \<Rightarrow> point" where
  "sendPointToPlane p m = (case m of None \<Rightarrow> p | Some t \<Rightarrow> point_transform p t)"

text \<open>
  Modelled from the spec: \<^verbatim>\<open>calcVectorRotation\<close> of the absent \<^verbatim>\<open>util/misc/vectors\<close>, the
  angle of a vector.
\<close>

definition calcVectorRotation :: "point \<Rightarrow> real" where
  "calcVectorRotation v = atan2 (point_y v) (point_x v)"

subsection \<open>Quadrant classifier\<close>

definition findCornerQuadrant :: "'a fabricObject_scheme \<Rightarrow> control \<Rightarrow> int" where
  "findCornerQuadrant fabricObj contrl =
     (let rotation = calcVectorRotation
            (bbox_vectorFromOrigin fabricObj (Point (control_x contrl) (control_y contrl)))
      in js_round (js_rem (rotation + twoMathPi) twoMathPi / PIBy4))"

subsection \<open>Local point calculator\<close>

definition normalizePoint ::
  "'a fabricObject_scheme \<Rightarrow> point \<Rightarrow> origin \<Rightarrow> origin \<Rightarrow> point" where
  "normalizePoint targt pnt originX originY =
     (let angle = getTotalAngle targt;
          p = sendPointToPlane (getXY targt originX originY) (group_calcTransformMatrix targt);
          p2 = (if angle \<noteq> 0 then point_rotate pnt (- angle) (getRelativeCenterPoint targt)
                else pnt)
      in point_subtract p2 p)"

text \<open>
  \<^verbatim>\<open>target.canvas?.getZoom() || 1\<close> is 1 without a canvas and for a zoom of 0. The four
  conditional assignments run in the order of the source, each on the coordinate the
  earlier ones left. A corner that the object does not have makes \<^verbatim>\<open>control\<close> undefined,
  and reading its \<^verbatim>\<open>offsetX\<close> raises.
\<close>

definition getLocalPoint ::
  "'a fabricObject_scheme transform \<Rightarrow> origin \<Rightarrow> origin \<Rightarrow> real \<Rightarrow> real \<Rightarrow> error + point" where
  "getLocalPoint tr originX originY x y =
     (let contrl = controls (target tr) (corner tr);
          zoom = (case canvas_getZoom (target tr) of
                    None \<Rightarrow> 1
                  | Some z \<Rightarrow> if z = 0 then 1 else z);
          pad = padding (target tr) / zoom;
          localPoint = normalizePoint (target tr) (Point x y) originX originY;
          lx = point_x localPoint;
          ly = point_y localPoint;
          lx = (if lx \<ge> pad then lx - pad else lx);
          lx = (if lx \<le> - pad then lx + pad else lx);
          ly = (if ly \<ge> pad then ly - pad else ly);
          ly = (if ly \<le> pad then ly + pad else ly)
      in case contrl of
           None \<Rightarrow> Inl TypeError
         | Some c \<Rightarrow> Inr (Point (lx - offsetX c) (ly - offsetY c)))"

subsection \<open>The functions on a store of instances\<close>

text \<open>
  To follow writes and aliasing, the same functions are given a second time with the
  \<^verbatim>\<open>FabricObject\<close> and \<^verbatim>\<open>Point\<close> instances held in a store and passed by reference.
  Each function returns its result and the store it leaves.
\<close>

type_synonym ref = nat

text \<open>
  \<^verbatim>\<open>objects\<close> and \<^verbatim>\<open>points\<close> give the instance behind a reference. The references
  to points below \<^verbatim>\<open>point_limit\<close> are in use; \<^verbatim>\<open>new Point\<close> takes the next one.
\<close>

record 'a store =
  objects :: "ref \<Rightarrow> 'a fabricObject_scheme"
  points :: "ref \<Rightarrow> point"
  point_limit :: ref

definition new_Point :: "'a store \<Rightarrow> point \<Rightarrow> ref \<times> 'a store" where
  "new_Point s v =
     (point_limit s,
      s \<lparr> points := (points s) (point_limit s := v), point_limit := Suc (point_limit s) \<rparr>)"

text \<open>The assignments \<^verbatim>\<open>p.x = v\<close> and \<^verbatim>\<open>p.y = v\<close> to the instance behind a reference.\<close>

definition set_point_x :: "'a store \<Rightarrow> ref \<Rightarrow> real \<Rightarrow> 'a store" where
  "set_point_x s r v = s \<lparr> points := (points s) (r := Point v (point_y (points s r))) \<rparr>"

definition set_point_y :: "'a store \<Rightarrow> ref \<Rightarrow> real \<Rightarrow> 'a store" where
  "set_point_y s r v = s \<lparr> points := (points s) (r := Point (point_x (points s r)) v) \<rparr>"

text \<open>
  Modelled from the spec: the absent methods that return a point (\<^verbatim>\<open>getXY\<close>,
  \<^verbatim>\<open>getRelativeCenterPoint\<close>, \<^verbatim>\<open>bbox.vectorFromOrigin\<close>, \<^verbatim>\<open>sendPointToPlane\<close>,
  \<^verbatim>\<open>rotate\<close>, \<^verbatim>\<open>subtract\<close>) return a new instance and write nothing. When the angle
  is 0, \<^verbatim>\<open>p2\<close> is the instance that was passed in.
\<close>

definition normalizePoint_store ::
  "'a store \<Rightarrow> ref \<Rightarrow> ref \<Rightarrow> origin \<Rightarrow> origin \<Rightarrow> ref \<times> 'a store" where
  "normalizePoint_store s targt pnt originX originY =
     (let angle = getTotalAngle (objects s targt);
          (xy, s1) = new_Point s (getXY (objects s targt) originX originY);
          (p, s2) = new_Point s1
                      (sendPointToPlane (points s1 xy)
                         (group_calcTransformMatrix (objects s1 targt)));
          (p2, s3) = (if angle \<noteq> 0
                      then let (c, s') = new_Point s2 (getRelativeCenterPoint (objects s2 targt))
                           in new_Point s' (point_rotate (points s' pnt) (- angle) (points s' c))
                      else (pnt, s2))
      in new_Point s3 (point_subtract (points s3 p2) (points s3 p)))"

text \<open>
  \<^verbatim>\<open>getLocalPoint\<close> assigns to the coordinates of the instance that \<^verbatim>\<open>normalizePoint\<close>
  returned; the store after a TypeError is the one reached when the offset is read.
\<close>

definition getLocalPoint_store ::
  "'a store \<Rightarrow> ref \<Rightarrow> string \<Rightarrow> origin \<Rightarrow> origin \<Rightarrow> real \<Rightarrow> real \<Rightarrow>
   (error + ref) \<times> 'a store" where
  "getLocalPoint_store s targt cornr originX originY x y =
     (let contrl = controls (objects s targt) cornr;
          zoom = (case canvas_getZoom (objects s targt) of
                    None \<Rightarrow> 1
                  | Some z \<Rightarrow> if z = 0 then 1 else z);
          pad = padding (objects s targt) / zoom;
          (pnt, s0) = new_Point s (Point x y);
          (localPoint, s1) = normalizePoint_store s0 targt pnt originX originY;
          s2 = (if point_x (points s1 localPoint) \<ge> pad
                then set_point_x s1 localPoint (point_x (points s1 localPoint) - pad) else s1);
          s3 = (if point_x (points s2 localPoint) \<le> - pad
                then set_point_x s2 localPoint (point_x (points s2 localPoint) + pad) else s2);
          s4 = (if point_y (points s3 localPoint) \<ge> pad
                then set_point_y s3 localPoint (point_y (points s3 localPoint) - pad) else s3);
          s5 = (if point_y (points s4 localPoint) \<le> pad
                then set_point_y s4 localPoint (point_y (points s4 localPoint) + pad) else s4)
      in case contrl of
           None \<Rightarrow> (Inl TypeError, s5)
         | Some c \<Rightarrow>
             (let s6 = set_point_x s5 localPoint (point_x (points s5 localPoint) - offsetX c);
                  s7 = set_point_y s6 localPoint (point_y (points s6 localPoint) - offsetY c)
              in (Inr localPoint, s7)))"

definition findCornerQuadrant_store :: "'a store \<Rightarrow> ref \<Rightarrow> control \<Rightarrow> int \<times> 'a store" where
  "findCornerQuadrant_store s fabricObj contrl =
     (let (pnt, s1) = new_Point s (Point (control_x contrl) (control_y contrl));
          (v, s2) = new_Point s1 (bbox_vectorFromOrigin (objects s1 fabricObj) (points s1 pnt));
          rotation = calcVectorRotation (points s2 v)
      in (js_round (js_rem (rotation + twoMathPi) twoMathPi / PIBy4), s2))"

definition getActionFromCorner_store ::
  "(control \<Rightarrow> 'e \<Rightarrow> control \<Rightarrow> 'a fabricObject_scheme \<Rightarrow> string) \<Rightarrow>
   'a store \<Rightarrow> bool \<Rightarrow> string \<Rightarrow> 'e \<Rightarrow> ref \<Rightarrow> (error + string) \<times> 'a store" where
  "getActionFromCorner_store getActionName s alreadySelected cornr e targt =
     (if cornr = [] \<or> \<not> alreadySelected then (Inr ''drag'', s)
      else case controls (objects s targt) cornr of
             None \<Rightarrow> (Inl TypeError, s)
           | Some contrl \<Rightarrow> (Inr (getActionName contrl e contrl (objects s targt)), s))"

definition isLocked_store :: "'a store \<Rightarrow> ref \<Rightarrow> lockingKey \<Rightarrow> bool \<times> 'a store" where
  "isLocked_store s targt lockKey = (isLocked (objects s targt) lockKey, s)"

definition commonEventInfo_store ::
  "'a store \<Rightarrow> 'e \<Rightarrow> 't \<Rightarrow> real \<Rightarrow> real \<Rightarrow>
   ('e, 't, ref) basicTransformEvent \<times> 'a store" where
  "commonEventInfo_store s eventData transfrm x y =
     (let (pnt, s1) = new_Point s (Point x y)
      in (\<lparr> event_e = eventData, event_transform = transfrm, event_pointer = pnt \<rparr>, s1))"

text \<open>
  A call leaves the store unchanged when every object is as before and every point that
  was in use holds the coordinates it held; it may have taken new references.
\<close>

definition unchanged :: "'a store \<Rightarrow> 'a store \<Rightarrow> bool" where
  "unchanged s s' \<longleftrightarrow>
     objects s' = objects s \<and> point_limit s \<le> point_limit s' \<and>
     (\<forall>r < point_limit s. points s' r = points s r)"

subsection \<open>Moving the object\<close>

text \<open>
  Modelled from the spec: what a rotation of the object does to the vector that the absent
  \<^verbatim>\<open>bbox.vectorFromOrigin\<close> returns. The vector is computed in the rotated frame of the
  object, so rotating the object rotates the vector; the total angle grows by the same
  angle. The fields that \<^verbatim>\<open>findCornerQuadrant\<close> does not read stay as they are.
\<close>

definition rotateObject :: "real \<Rightarrow> 'a fabricObject_scheme \<Rightarrow> 'a fabricObject_scheme" where
  "rotateObject radians obj =
     obj \<lparr> getTotalAngle := getTotalAngle obj + radians,
           bbox_vectorFromOrigin := (\<lambda>p. rotateVector (bbox_vectorFromOrigin obj p) radians) \<rparr>"

text \<open>
  Modelled from the spec: the translation of the object by a vector of the world plane,
  as the absent methods \<^verbatim>\<open>getXY\<close>, \<^verbatim>\<open>getRelativeCenterPoint\<close> and
  \<^verbatim>\<open>group.calcTransformMatrix\<close> see it. The centre of the object, around which the
  world point is rotated, moves with the object. An object without a parent group has its
  own position moved: every anchor moves by the vector. An object in a group moves with its
  ancestor groups: the vector is added to the translation of their matrix, so that every
  anchor projected through the groups moves by the vector.
\<close>

fun tmat2d_translate :: "tmat2d \<Rightarrow> point \<Rightarrow> tmat2d" where
  "tmat2d_translate (TMat2D a b c d e f) v = TMat2D a b c d (e + point_x v) (f + point_y v)"

definition translateObject :: "point \<Rightarrow> 'a fabricObject_scheme \<Rightarrow> 'a fabricObject_scheme" where
  "translateObject v obj =
     (case group_calcTransformMatrix obj of
        None \<Rightarrow>
          obj \<lparr> getXY := (\<lambda>originX originY. point_add (getXY obj originX originY) v),
                getRelativeCenterPoint := point_add (getRelativeCenterPoint obj) v \<rparr>
      | Some m \<Rightarrow>
          obj \<lparr> group_calcTransformMatrix := Some (tmat2d_translate m v),
                getRelativeCenterPoint := point_add (getRelativeCenterPoint obj) v \<rparr>)"

subsection \<open>Objects to evaluate the functions on\<close>

text \<open>
  An unrotated object of 40 by 20 pixels centred at (100, 100), with no parent group, a
  padding of 3, a canvas zoom of 1 and the one control \<^verbatim>\<open>br\<close>.
\<close>

definition exampleControl :: control where
  "exampleControl = \<lparr> control_x = 1/2, control_y = 1/2, offsetX = 2, offsetY = 0 \<rparr>"

definition exampleObject :: fabricObject where
  "exampleObject =
     \<lparr> controls = [''br'' \<mapsto> exampleControl],
       padding = 3,
       canvas_getZoom = Some 1,
       getTotalAngle = 0,
       getXY = (\<lambda>originX originY.
                  Point (100 + 40 * resolveOrigin originX) (100 + 20 * resolveOrigin originY)),
       getRelativeCenterPoint = Point 100 100,
       group_calcTransformMatrix = None,
       bbox_vectorFromOrigin = (\<lambda>p. Point (40 * point_x p) (20 * point_y p)),
       lockMovementX = False, lockMovementY = False, lockRotation = False,
       lockScalingX = False, lockScalingY = False, lockSkewingX = False,
       lockSkewingY = False, lockScalingFlip = False \<rparr>"

definition exampleTransform :: "fabricObject transform" where
  "exampleTransform = \<lparr> target = exampleObject, corner = ''br'' \<rparr>"

text \<open>
  An unrotated object of 200 by 20 pixels with its top right control; a control at the
  centre and one at the middle of the right edge of the example object; the example
  object turned by half a turn inside a group whose matrix is the identity, and unrotated
  inside a group that scales by 2 and translates by (30, 40).
\<close>

definition flatObject :: fabricObject where
  "flatObject = exampleObject \<lparr> bbox_vectorFromOrigin := (\<lambda>p. Point (200 * point_x p) (20 * point_y p)) \<rparr>"

definition flatControl :: control where
  "flatControl = \<lparr> control_x = 1/2, control_y = - (1/2), offsetX = 0, offsetY = 0 \<rparr>"

definition centerControl :: control where
  "centerControl = \<lparr> control_x = 0, control_y = 0, offsetX = 0, offsetY = 0 \<rparr>"

definition middleRightControl :: control where
  "middleRightControl = \<lparr> control_x = 1/2, control_y = 0, offsetX = 0, offsetY = 0 \<rparr>"

definition groupedObject :: fabricObject where
  "groupedObject =
     exampleObject \<lparr> getTotalAngle := pi, group_calcTransformMatrix := Some (TMat2D 1 0 0 1 0 0) \<rparr>"

definition unrotatedGroupedObject :: fabricObject where
  "unrotatedGroupedObject =
     exampleObject \<lparr> group_calcTransformMatrix := Some (TMat2D 2 0 0 2 30 40) \<rparr>"

text \<open>A store that holds the example object and one point in use.\<close>

definition exampleStore :: "unit store" where
  "exampleStore = \<lparr> objects = (\<lambda>r. exampleObject), points = (\<lambda>r. Point 0 0), point_limit = 1 \<rparr>"

section \<open>Properties\<close>

subsection \<open>The example object\<close>

lemma exampleTransform_control:
  "controls (target exampleTransform) (corner exampleTransform) = Some exampleControl"
  by (simp add: exampleTransform_def exampleObject_def)

lemma exampleTransform_padding: "padding (target exampleTransform) = 3"
  by (simp add: exampleTransform_def exampleObject_def)

lemma exampleTransform_zoom: "canvas_getZoom (target exampleTransform) = Some 1"
  by (simp add: exampleTransform_def exampleObject_def)

lemma exampleControl_offsetY: "offsetY exampleControl = 0"
  by (simp add: exampleControl_def)

lemma exampleControl_offsetX: "offsetX exampleControl = 2"
  by (simp add: exampleControl_def)

lemma exampleTransform_normalizePoint:
  "normalizePoint (target exampleTransform) (Point x y) OriginCenter OriginCenter
     = Point (x - 100) (y - 100)"
  by (simp add: exampleTransform_def exampleObject_def normalizePoint_def
        sendPointToPlane_def point_subtract_def)

subsection \<open>Action resolver\<close>

text \<open>
  C5. Without a corner, or when the object was not already selected,
  \<^verbatim>\<open>getActionFromCorner\<close> returns \<^verbatim>\<open>drag\<close>, whatever control is at the corner;
  otherwise it returns what the \<^verbatim>\<open>getActionName\<close> of the corner's control returns for
  the event, the control and the target.
\<close>

theorem getActionFromCorner_drag_or_control:
  "(cornr = [] \<or> \<not> alreadySelected \<longrightarrow>
      getActionFromCorner getActionName alreadySelected cornr e targt = Inr ''drag'') \<and>
   (cornr \<noteq> [] \<and> alreadySelected \<and> controls targt cornr = Some c \<longrightarrow>
      getActionFromCorner getActionName alreadySelected cornr e targt
        = Inr (getActionName c e c targt))"
  by (simp add: getActionFromCorner_def)

theorem getActionFromCorner_drag_or_control_witness:
  "getActionFromCorner (\<lambda>c e c' t. ''scale'') False ''br'' () exampleObject = Inr ''drag'' \<and>
   getActionFromCorner (\<lambda>c e c' t. ''scale'') True ''br'' () exampleObject = Inr ''scale''"
  using getActionFromCorner_drag_or_control
          [of "''br''" False "\<lambda>c e c' t. ''scale''" "()" exampleObject exampleControl]
        getActionFromCorner_drag_or_control
          [of "''br''" True "\<lambda>c e c' t. ''scale''" "()" exampleObject exampleControl]
  by (simp add: exampleObject_def)

subsection \<open>Origin resolver\<close>

text \<open>
  C6. For every origin, \<^verbatim>\<open>invertOrigin(o)\<close> is \<^verbatim>\<open>-resolveOrigin(o) + 0.5\<close>, and
  \<^verbatim>\<open>invertOrigin\<close> applied to its own result gives back the resolved value of the origin.
\<close>

theorem invertOrigin_twice:
  "invertOrigin origin = - resolveOrigin origin + 1/2 \<and>
   invertOrigin (OriginNumeric (invertOrigin origin)) = resolveOrigin origin"
  by (simp add: invertOrigin_def)

text \<open>
  C7. \<^verbatim>\<open>isTransformCentered\<close> holds exactly when both resolved offsets are 0, and it
  fails as soon as one of the two origins is an edge.
\<close>

theorem isTransformCentered_iff:
  "(isTransformCentered originX originY \<longleftrightarrow>
      resolveOrigin originX = 0 \<and> resolveOrigin originY = 0) \<and>
   (originX \<in> {OriginStart, OriginEnd} \<or> originY \<in> {OriginStart, OriginEnd} \<longrightarrow>
      \<not> isTransformCentered originX originY)"
  by (auto simp: isTransformCentered_def resolveOriginPoint_def point_eq_def)

theorem isTransformCentered_iff_witness:
  "isTransformCentered OriginCenter OriginCenter \<and>
   \<not> isTransformCentered OriginStart OriginCenter \<and>
   \<not> isTransformCentered OriginCenter OriginEnd"
  using isTransformCentered_iff [of OriginCenter OriginCenter]
        isTransformCentered_iff [of OriginStart OriginCenter]
        isTransformCentered_iff [of OriginCenter OriginEnd]
  by simp

subsection \<open>Padding collapse of the local point\<close>

text \<open>
  C2. With a padding \<open>P > 0\<close> and a canvas zoom of 1, \<^verbatim>\<open>getLocalPoint\<close> takes a normalized
  local x-coordinate of \<open>P\<close> to 0, of \<open>P + 5\<close> to 5 and of \<open>-P\<close> to 0, before the
  \<^verbatim>\<open>offsetX\<close> of the control is subtracted.
\<close>

theorem getLocalPoint_x_collapse:
  assumes "padding (target tr) = P" and "0 < P"
    and "canvas_getZoom (target tr) = Some 1"
    and "controls (target tr) (corner tr) = Some c"
  shows "\<exists>r. getLocalPoint tr originX originY x y = Inr r \<and>
     (point_x (normalizePoint (target tr) (Point x y) originX originY) = P \<longrightarrow>
        point_x r = 0 - offsetX c) \<and>
     (point_x (normalizePoint (target tr) (Point x y) originX originY) = P + 5 \<longrightarrow>
        point_x r = 5 - offsetX c) \<and>
     (point_x (normalizePoint (target tr) (Point x y) originX originY) = - P \<longrightarrow>
        point_x r = 0 - offsetX c)"
  using assms by (simp add: getLocalPoint_def Let_def)

theorem getLocalPoint_x_collapse_witness:
  "(\<exists>r. getLocalPoint exampleTransform OriginCenter OriginCenter 103 100 = Inr r \<and>
        point_x r = 0 - 2) \<and>
   (\<exists>r. getLocalPoint exampleTransform OriginCenter OriginCenter 108 100 = Inr r \<and>
        point_x r = 5 - 2) \<and>
   (\<exists>r. getLocalPoint exampleTransform OriginCenter OriginCenter 97 100 = Inr r \<and>
        point_x r = 0 - 2)"
proof -
  have pos: "(0::real) < 3" by simp
  note th = getLocalPoint_x_collapse
              [OF exampleTransform_padding pos exampleTransform_zoom exampleTransform_control,
               of OriginCenter OriginCenter]
  show ?thesis
    using th [of 103 100] th [of 108 100] th [of 97 100]
    by (auto simp: exampleTransform_normalizePoint exampleControl_offsetX)
qed

text \<open>
  C3. On the y-axis \<^verbatim>\<open>getLocalPoint\<close> subtracts the padding from a coordinate that is at
  least the padding and then adds the padding to a coordinate that is at most the padding
  itself, whereas on the x-axis the second test is against the negated padding.
\<close>

theorem getLocalPoint_y_threshold:
  assumes "controls (target tr) (corner tr) = Some c"
    and "pad = padding (target tr) /
               (case canvas_getZoom (target tr) of None \<Rightarrow> 1 | Some z \<Rightarrow> if z = 0 then 1 else z)"
    and "n = normalizePoint (target tr) (Point x y) originX originY"
  shows "\<exists>r. getLocalPoint tr originX originY x y = Inr r \<and>
     point_y r =
       (let v1 = (if point_y n \<ge> pad then point_y n - pad else point_y n);
            v2 = (if v1 \<le> pad then v1 + pad else v1)
        in v2 - offsetY c) \<and>
     point_x r =
       (let u1 = (if point_x n \<ge> pad then point_x n - pad else point_x n);
            u2 = (if u1 \<le> - pad then u1 + pad else u1)
        in u2 - offsetX c)"
  using assms by (simp add: getLocalPoint_def Let_def)

theorem getLocalPoint_y_threshold_witness:
  "\<exists>r. getLocalPoint exampleTransform OriginCenter OriginCenter 101 101 = Inr r \<and>
       point_y r = 4 \<and> point_x r = - 1"
  using getLocalPoint_y_threshold
          [OF exampleTransform_control refl refl, of OriginCenter OriginCenter 101 101]
  by (auto simp: exampleTransform_normalizePoint exampleTransform_padding
        exampleTransform_zoom exampleControl_offsetX exampleControl_offsetY)

text \<open>
  C4. With a padding \<open>P > 0\<close>, a canvas zoom of 1 and a control whose \<^verbatim>\<open>offsetY\<close> is 0,
  a normalized local y-coordinate \<open>v\<close> becomes \<open>v + P\<close> when \<open>v < P\<close>, stays \<open>v\<close> when
  \<open>P \<le> v \<le> 2P\<close> and becomes \<open>v - P\<close> when \<open>v > 2P\<close>. So 0 gives \<open>P\<close>, \<open>-P\<close> gives 0,
  \<open>P\<close> gives \<open>P\<close>, and no positive coordinate gives 0.
\<close>

theorem getLocalPoint_y_cases:
  assumes "padding (target tr) = P" and "0 < P"
    and "canvas_getZoom (target tr) = Some 1"
    and "controls (target tr) (corner tr) = Some c" and "offsetY c = 0"
    and "v = point_y (normalizePoint (target tr) (Point x y) originX originY)"
  shows "\<exists>r. getLocalPoint tr originX originY x y = Inr r \<and>
     point_y r = (if v < P then v + P else if v \<le> 2 * P then v else v - P) \<and>
     (v = 0 \<longrightarrow> point_y r = P) \<and>
     (v = - P \<longrightarrow> point_y r = 0) \<and>
     (v = P \<longrightarrow> point_y r = P) \<and>
     (0 < v \<longrightarrow> point_y r \<noteq> 0)"
  using assms by (simp add: getLocalPoint_def Let_def)

theorem getLocalPoint_y_cases_witness:
  "(\<exists>r. getLocalPoint exampleTransform OriginCenter OriginCenter 100 100 = Inr r \<and>
        point_y r = 3) \<and>
   (\<exists>r. getLocalPoint exampleTransform OriginCenter OriginCenter 100 97 = Inr r \<and>
        point_y r = 0) \<and>
   (\<exists>r. getLocalPoint exampleTransform OriginCenter OriginCenter 100 103 = Inr r \<and>
        point_y r = 3) \<and>
   (\<exists>r. getLocalPoint exampleTransform OriginCenter OriginCenter 100 110 = Inr r \<and>
        point_y r = 7)"
proof -
  have pos: "(0::real) < 3" by simp
  note th = getLocalPoint_y_cases
              [OF exampleTransform_padding pos exampleTransform_zoom exampleTransform_control
                  exampleControl_offsetY refl,
               of OriginCenter OriginCenter]
  show ?thesis
    using th [of 100 100] th [of 100 97] th [of 100 103] th [of 100 110]
    by (auto simp: exampleTransform_normalizePoint)
qed

subsection \<open>Quadrant classifier\<close>

lemma js_rem_turn:
  assumes "- pi < r" and "r \<le> pi"
  shows "js_rem (r + twoMathPi) twoMathPi = (if r < 0 then r + 2 * pi else r)"
proof (cases "r < 0")
  case True
  define z where "z = (r + 2 * pi) / (2 * pi)"
  have "0 \<le> z" "z < 1"
    using assms True pi_gt_zero by (simp_all add: z_def field_simps)
  then have "js_trunc z = 0"
    by (simp add: js_trunc_def floor_eq_iff)
  then show ?thesis
    using True by (simp add: js_rem_def twoMathPi_def flip: z_def)
next
  case False
  define z where "z = (r + 2 * pi) / (2 * pi)"
  have "1 \<le> z"
    using False pi_gt_zero by (simp add: z_def field_simps)
  moreover have "z < 2"
  proof -
    have "r + 2 * pi < 2 * (2 * pi)"
      using assms pi_gt_zero by linarith
    then show ?thesis
      using pi_gt_zero by (simp add: z_def field_simps)
  qed
  ultimately have "js_trunc z = 1"
    by (simp add: js_trunc_def floor_eq_iff)
  then show ?thesis
    using False by (simp add: js_rem_def twoMathPi_def flip: z_def)
qed

lemma quadrant_eight:
  assumes "- (pi / 8) \<le> r" and "r < 0"
  shows "js_round (js_rem (r + twoMathPi) twoMathPi / PIBy4) = 8"
proof -
  have "- pi < r" "r \<le> pi" using assms pi_gt_zero by linarith+
  then have m: "js_rem (r + twoMathPi) twoMathPi = r + 2 * pi"
    using assms js_rem_turn [of r] by simp
  define z where "z = (r + 2 * pi) / (pi / 4) + 1 / 2"
  have "8 \<le> z" "z < 9"
    using assms pi_gt_zero by (simp_all add: z_def field_simps)
  then have "\<lfloor>z\<rfloor> = 8"
    by (simp add: floor_eq_iff)
  then show ?thesis
    unfolding js_round_def m PIBy4_def z_def .
qed

lemma arctan_tenth: "arctan (1 / 10) < pi / 8"
proof -
  have "arctan (1/10) + arctan (1/10) = arctan (((1/10) + (1/10)) / (1 - (1/10) * (1/10)))"
    by (rule arctan_add) simp_all
  also have "\<dots> < arctan 1"
    unfolding arctan_less_iff by simp
  finally show ?thesis
    by (simp add: arctan_one)
qed

text \<open>
  C1. The documentation of \<^verbatim>\<open>findCornerQuadrant\<close> promises a quadrant from 0 to 7. For
  the top right control of the flat object the vector from the origin is \<open>(100, -10)\<close>;
  its angle lies within 22.5 degrees below the x-axis, and the function returns 8.
\<close>

theorem findCornerQuadrant_eight: "findCornerQuadrant flatObject flatControl = 8"
proof -
  have r: "calcVectorRotation (bbox_vectorFromOrigin flatObject
             (Point (control_x flatControl) (control_y flatControl))) = - arctan (1 / 10)"
    by (simp add: calcVectorRotation_def flatObject_def flatControl_def atan2_def arctan_minus)
  have "- (pi / 8) \<le> - arctan (1 / 10)" "- arctan (1 / 10) < 0"
    using arctan_tenth by simp_all
  then show ?thesis
    unfolding findCornerQuadrant_def Let_def r by (rule quadrant_eight)
qed

lemma atan2_polar:
  assumes "0 < r" and "- pi < t" and "t \<le> pi"
  shows "atan2 (r * sin t) (r * cos t) = t"
proof -
  consider (mid) "- (pi/2) < t" "t < pi/2" | (up) "t = pi/2" | (down) "t = - (pi/2)"
    | (left_up) "pi/2 < t" | (left_down) "t < - (pi/2)"
    by linarith
  then show ?thesis
  proof cases
    case mid
    then have c: "0 < cos t" by (rule cos_gt_zero_pi)
    have "r * sin t / (r * cos t) = tan t"
      using assms(1) by (simp add: tan_def)
    then show ?thesis
      using c assms(1) mid by (simp add: atan2_def arctan_tan)
  next
    case up
    show ?thesis unfolding up using assms(1) by (simp add: atan2_def)
  next
    case down
    show ?thesis unfolding down using assms(1) by (simp add: atan2_def)
  next
    case left_up
    define s where "s = t - pi"
    have s: "- (pi/2) < s" "s \<le> 0" using left_up assms by (simp_all add: s_def)
    have t: "t = s + pi" by (simp add: s_def)
    have c: "0 < cos s" using s pi_gt_zero by (intro cos_gt_zero_pi) linarith+
    have "0 \<le> sin (- s)" using s pi_gt_zero by (intro sin_ge_zero) linarith+
    then have sn: "sin s \<le> 0" by simp
    have q: "r * sin t / (r * cos t) = tan s"
      using assms(1) by (simp add: t tan_def)
    have "arctan (tan s) = s" using s pi_gt_zero by (intro arctan_tan) linarith+
    moreover have "r * cos t < 0" "0 \<le> r * sin t"
      using c sn assms(1) by (simp_all add: t mult_le_0_iff zero_le_mult_iff mult_less_0_iff)
    ultimately show ?thesis
      unfolding atan2_def q by (simp add: t)
  next
    case left_down
    define s where "s = t + pi"
    have s: "0 < s" "s < pi/2" using left_down assms by (simp_all add: s_def)
    have t: "t = s - pi" by (simp add: s_def)
    have c: "0 < cos s" using s pi_gt_zero by (intro cos_gt_zero_pi) linarith+
    have sn: "0 < sin s" using s pi_gt_zero by (intro sin_gt_zero) linarith+
    have q: "r * sin t / (r * cos t) = tan s"
      using assms(1) by (simp add: t tan_def)
    have "arctan (tan s) = s" using s pi_gt_zero by (intro arctan_tan) linarith+
    moreover have "r * cos t < 0" "r * sin t < 0"
      using c sn assms(1) by (simp_all add: t mult_less_0_iff)
    ultimately show ?thesis
      unfolding atan2_def q by (simp add: t)
  qed
qed

lemma polar_principal:
  assumes "x \<noteq> 0 \<or> y \<noteq> (0::real)"
  obtains r t where "0 < r" "- pi < t" "t \<le> pi" "x = r * cos t" "y = r * sin t"
proof -
  define r where "r = sqrt (x\<^sup>2 + y\<^sup>2)"
  have "0 < x\<^sup>2 + y\<^sup>2"
    using assms by (auto simp: sum_power2_gt_zero_iff)
  then have r: "0 < r" by (simp add: r_def)
  have r2: "r\<^sup>2 = x\<^sup>2 + y\<^sup>2" by (simp add: r_def)
  have "(x / r)\<^sup>2 + (y / r)\<^sup>2 = (x\<^sup>2 + y\<^sup>2) / r\<^sup>2"
    by (simp add: power_divide add_divide_distrib)
  also have "\<dots> = 1"
    using r assms by (auto simp: r2)
  finally have "(x / r)\<^sup>2 + (y / r)\<^sup>2 = 1" .
  then obtain t0 where t0: "x / r = cos t0" "y / r = sin t0"
    by (rule sincos_total_2pi)
  obtain t where t: "- pi < t" "t \<le> pi" "sin t = sin t0" "cos t = cos t0"
    using sincos_principal_value [of t0] by blast
  have "x = r * cos t" "y = r * sin t"
    using r t0 t by (simp_all add: field_simps)
  with r t show ?thesis by (intro that [of r t])
qed

lemma quadrant_of_angle:
  assumes "- pi < t" and "t \<le> pi"
  shows "js_round (js_rem (t + twoMathPi) twoMathPi / PIBy4)
           = \<lfloor>(if t < 0 then t + 2 * pi else t) / (pi / 4) + 1 / 2\<rfloor>"
  unfolding js_round_def PIBy4_def js_rem_turn [OF assms] ..

text \<open>For every object and control the quadrant lies between 0 and 8.\<close>

lemma atan2_bounds: "- pi < atan2 y x \<and> atan2 y x \<le> pi"
proof -
  have b: "- (pi/2) < arctan (y / x)" "arctan (y / x) < pi/2"
    using arctan_bounded [of "y / x"] by simp_all
  have n: "x < 0 \<Longrightarrow> 0 \<le> y \<Longrightarrow> arctan (y / x) \<le> 0"
    by (simp add: divide_nonneg_neg)
  have p: "x < 0 \<Longrightarrow> y < 0 \<Longrightarrow> 0 < arctan (y / x)"
    by (simp add: divide_neg_neg)
  show ?thesis
    unfolding atan2_def using b n p pi_gt_zero by (auto; linarith)
qed

lemma findCornerQuadrant_range:
  "0 \<le> findCornerQuadrant obj c \<and> findCornerQuadrant obj c \<le> 8"
proof -
  define t where "t = calcVectorRotation
                        (bbox_vectorFromOrigin obj (Point (control_x c) (control_y c)))"
  have t: "- pi < t" "t \<le> pi"
    using atan2_bounds by (simp_all add: t_def calcVectorRotation_def)
  define m where "m = (if t < 0 then t + 2 * pi else t)"
  have m: "0 \<le> m" "m < 2 * pi"
    using t pi_gt_zero by (auto simp: m_def)
  define z where "z = m / (pi / 4) + 1 / 2"
  have "0 \<le> z" "z < 9"
    using m pi_gt_zero by (simp_all add: z_def field_simps)
  then have "0 \<le> \<lfloor>z\<rfloor>" "\<lfloor>z\<rfloor> < 9"
    by (simp_all add: floor_less_iff)
  moreover have "findCornerQuadrant obj c = \<lfloor>z\<rfloor>"
    unfolding findCornerQuadrant_def Let_def t_def [symmetric] quadrant_of_angle [OF t] z_def m_def ..
  ultimately show ?thesis by simp
qed

lemma floor_quarter_shift:
  "\<lfloor>(m + pi / 4) / (pi / 4) + 1 / 2\<rfloor> = \<lfloor>m / (pi / 4) + 1 / 2\<rfloor> + 1"
proof -
  define z where "z = m / (pi / 4) + 1 / 2"
  have "(m + pi / 4) / (pi / 4) + 1 / 2 = z + 1"
    by (simp add: z_def field_simps)
  then have "\<lfloor>(m + pi / 4) / (pi / 4) + 1 / 2\<rfloor> = \<lfloor>z + 1\<rfloor>"
    by (simp only:)
  also have "\<dots> = \<lfloor>z\<rfloor> + 1"
    by simp
  finally show ?thesis
    unfolding z_def .
qed

lemma floor_quarter_wrap:
  "\<lfloor>(m + pi / 4 - 2 * pi) / (pi / 4) + 1 / 2\<rfloor> = \<lfloor>m / (pi / 4) + 1 / 2\<rfloor> - 7"
proof -
  define z where "z = m / (pi / 4) + 1 / 2"
  have "(m + pi / 4 - 2 * pi) / (pi / 4) + 1 / 2 = z - 7"
    by (simp add: z_def field_simps)
  then have "\<lfloor>(m + pi / 4 - 2 * pi) / (pi / 4) + 1 / 2\<rfloor> = \<lfloor>z - 7\<rfloor>"
    by (simp only:)
  also have "\<dots> = \<lfloor>z\<rfloor> - 7"
    by simp
  finally show ?thesis
    unfolding z_def .
qed

lemma sin_cos_minus_turn: "cos (u - 2 * pi) = cos u \<and> sin (u - 2 * pi) = sin u"
  using cos_periodic [of "u - 2 * pi"] sin_periodic [of "u - 2 * pi"] by simp

lemma quadrant_shift:
  assumes "- pi < t" and "t \<le> pi"
    and "t' = (if t + pi / 4 \<le> pi then t + pi / 4 else t + pi / 4 - 2 * pi)"
  shows "\<lfloor>(if t' < 0 then t' + 2 * pi else t') / (pi / 4) + 1 / 2\<rfloor> mod 8
           = (\<lfloor>(if t < 0 then t + 2 * pi else t) / (pi / 4) + 1 / 2\<rfloor> + 1) mod 8"
proof -
  define m where "m = (if t < 0 then t + 2 * pi else t)"
  define m' where "m' = (if t' < 0 then t' + 2 * pi else t')"
  have "m' = m + pi / 4 \<or> m' = m + pi / 4 - 2 * pi"
  proof (cases "t + pi / 4 \<le> pi")
    case True
    then have t': "t' = t + pi / 4" using assms(3) by simp
    show ?thesis
    proof (cases "t < 0")
      case True
      then show ?thesis by (simp add: m_def m'_def t')
    next
      case False
      then have "\<not> t' < 0" using pi_gt_zero unfolding t' by linarith
      with False show ?thesis by (simp add: m_def m'_def t')
    qed
  next
    case False
    then have t': "t' = t + pi / 4 - 2 * pi" using assms(3) by simp
    have "\<not> t < 0" using False pi_gt_zero by linarith
    moreover have "t' < 0" using assms(2) pi_gt_zero unfolding t' by linarith
    ultimately show ?thesis by (simp add: m_def m'_def t')
  qed
  then have "\<lfloor>m' / (pi / 4) + 1 / 2\<rfloor> = \<lfloor>m / (pi / 4) + 1 / 2\<rfloor> + 1 \<or>
             \<lfloor>m' / (pi / 4) + 1 / 2\<rfloor> = \<lfloor>m / (pi / 4) + 1 / 2\<rfloor> - 7"
    using floor_quarter_shift [of m] floor_quarter_wrap [of m] by auto
  moreover have "a = b + 1 \<or> a = b - 7 \<Longrightarrow> a mod 8 = (b + 1) mod 8" for a b :: int
  proof (erule disjE)
    assume "a = b + 1"
    then show ?thesis by simp
  next
    assume "a = b - 7"
    then have "a = (b + 1) - 8" by simp
    then show ?thesis by (simp only: minus_mod_self2)
  qed
  ultimately have "\<lfloor>m' / (pi / 4) + 1 / 2\<rfloor> mod 8 = (\<lfloor>m / (pi / 4) + 1 / 2\<rfloor> + 1) mod 8"
    by blast
  then show ?thesis
    unfolding m_def m'_def .
qed

lemma rotateVector_full_turn: "rotateVector v (2 * pi) = v"
  by (simp add: rotateVector_def)

lemma rotateVector_polar:
  "rotateVector (Point (r * cos t) (r * sin t)) a = Point (r * cos (t + a)) (r * sin (t + a))"
  by (simp add: rotateVector_def cos_add sin_add algebra_simps)

text \<open>
  C9, amended. For a control whose vector from the rotation origin is not the zero vector,
  rotating the object by 45 degrees shifts the quadrant of the control by 1 modulo 8; for
  every control, rotating the object by 360 degrees leaves the quadrant as it was.
\<close>

theorem findCornerQuadrant_rotate:
  "(bbox_vectorFromOrigin obj (Point (control_x c) (control_y c)) \<noteq> Point 0 0 \<longrightarrow>
      findCornerQuadrant (rotateObject (pi / 4) obj) c mod 8
        = (findCornerQuadrant obj c + 1) mod 8) \<and>
   findCornerQuadrant (rotateObject (2 * pi) obj) c = findCornerQuadrant obj c"
proof (intro conjI impI)
  show "findCornerQuadrant (rotateObject (2 * pi) obj) c = findCornerQuadrant obj c"
    by (simp add: findCornerQuadrant_def rotateObject_def rotateVector_full_turn)
next
  assume nz: "bbox_vectorFromOrigin obj (Point (control_x c) (control_y c)) \<noteq> Point 0 0"
  define v where "v = bbox_vectorFromOrigin obj (Point (control_x c) (control_y c))"
  obtain x y where xy: "v = Point x y" by (cases v)
  have "x \<noteq> 0 \<or> y \<noteq> 0" using nz xy by (auto simp: v_def)
  then obtain r t where rt: "0 < r" "- pi < t" "t \<le> pi" "x = r * cos t" "y = r * sin t"
    by (rule polar_principal)
  have v: "v = Point (r * cos t) (r * sin t)" by (simp add: xy rt)
  define t' where "t' = (if t + pi / 4 \<le> pi then t + pi / 4 else t + pi / 4 - 2 * pi)"
  have t': "- pi < t'" "t' \<le> pi"
    using rt pi_gt_zero by (auto simp: t'_def)
  have "cos (t + pi / 4) = cos t' \<and> sin (t + pi / 4) = sin t'"
  proof (cases "t + pi / 4 \<le> pi")
    case True
    then show ?thesis by (simp add: t'_def)
  next
    case False
    then have "t' = (t + pi / 4) - 2 * pi" by (simp add: t'_def)
    then show ?thesis by (simp only: sin_cos_minus_turn)
  qed
  then have v': "rotateVector v (pi / 4) = Point (r * cos t') (r * sin t')"
    by (simp add: v rotateVector_polar)
  have q: "findCornerQuadrant obj c = \<lfloor>(if t < 0 then t + 2 * pi else t) / (pi / 4) + 1 / 2\<rfloor>"
    unfolding findCornerQuadrant_def Let_def v_def [symmetric]
    by (simp add: v calcVectorRotation_def atan2_polar rt quadrant_of_angle)
  have q': "findCornerQuadrant (rotateObject (pi / 4) obj) c
              = \<lfloor>(if t' < 0 then t' + 2 * pi else t') / (pi / 4) + 1 / 2\<rfloor>"
    unfolding findCornerQuadrant_def Let_def
    by (simp add: rotateObject_def v_def [symmetric] v' calcVectorRotation_def
          atan2_polar rt t' quadrant_of_angle)
  show "findCornerQuadrant (rotateObject (pi / 4) obj) c mod 8
           = (findCornerQuadrant obj c + 1) mod 8"
    unfolding q q' using rt(2,3) t'_def by (rule quadrant_shift)
qed

lemma exampleObject_middle_right: "findCornerQuadrant exampleObject middleRightControl = 0"
proof -
  have "js_rem (0 + twoMathPi) twoMathPi = 0"
    using js_rem_turn [of 0] pi_gt_zero by simp
  then show ?thesis
    by (simp add: findCornerQuadrant_def exampleObject_def middleRightControl_def
          calcVectorRotation_def atan2_def js_round_def)
qed

theorem findCornerQuadrant_rotate_witness:
  "bbox_vectorFromOrigin exampleObject
     (Point (control_x middleRightControl) (control_y middleRightControl)) \<noteq> Point 0 0 \<and>
   findCornerQuadrant exampleObject middleRightControl = 0 \<and>
   findCornerQuadrant (rotateObject (pi / 4) exampleObject) middleRightControl mod 8 = 1 \<and>
   findCornerQuadrant (rotateObject (2 * pi) exampleObject) middleRightControl = 0"
proof -
  have h: "bbox_vectorFromOrigin exampleObject
             (Point (control_x middleRightControl) (control_y middleRightControl)) \<noteq> Point 0 0"
    by (simp add: exampleObject_def middleRightControl_def)
  from h findCornerQuadrant_rotate [of exampleObject middleRightControl]
  show ?thesis by (simp add: exampleObject_middle_right)
qed

text \<open>
  A control at the rotation origin has the zero vector, whose angle is 0 before and after
  the rotation: its quadrant stays 0.
\<close>

lemma findCornerQuadrant_zero_vector:
  assumes "bbox_vectorFromOrigin obj (Point (control_x c) (control_y c)) = Point 0 0"
  shows "findCornerQuadrant obj c = 0"
proof -
  have "js_rem (0 + twoMathPi) twoMathPi = 0"
    using js_rem_turn [of 0] pi_gt_zero by simp
  then show ?thesis
    by (simp add: findCornerQuadrant_def assms calcVectorRotation_def atan2_def js_round_def)
qed

theorem findCornerQuadrant_rotate_counterexample:
  "\<not> (findCornerQuadrant (rotateObject (pi / 4) exampleObject) centerControl mod 8
        = (findCornerQuadrant exampleObject centerControl + 1) mod 8)"
proof -
  have "findCornerQuadrant exampleObject centerControl = 0"
    by (rule findCornerQuadrant_zero_vector) (simp add: exampleObject_def centerControl_def)
  moreover have "findCornerQuadrant (rotateObject (pi / 4) exampleObject) centerControl = 0"
    by (rule findCornerQuadrant_zero_vector)
       (simp add: rotateObject_def exampleObject_def centerControl_def rotateVector_def)
  ultimately show ?thesis by simp
qed

subsection \<open>Translation of the local point\<close>

lemma point_transform_translate:
  "point_transform p (tmat2d_translate m v) = point_add (point_transform p m) v"
  by (cases m) (simp add: point_add_def)

lemma normalizePoint_translate:
  "normalizePoint (translateObject v obj) (Point (x + point_x v) (y + point_y v)) originX originY
     = normalizePoint obj (Point x y) originX originY"
proof (cases "group_calcTransformMatrix obj")
  case None
  then show ?thesis
    by (simp add: normalizePoint_def translateObject_def sendPointToPlane_def Let_def
          point_rotate_def point_subtract_def point_add_def rotateVector_def)
next
  case (Some m)
  then show ?thesis
    by (simp add: normalizePoint_def translateObject_def sendPointToPlane_def Let_def
          point_transform_translate point_rotate_def point_subtract_def point_add_def
          rotateVector_def)
qed

lemma translateObject_fields:
  "controls (translateObject v obj) = controls obj"
  "padding (translateObject v obj) = padding obj"
  "canvas_getZoom (translateObject v obj) = canvas_getZoom obj"
  by (simp_all add: translateObject_def split: option.splits)

text \<open>
  C8. For every transform, origin pair and world point, translating the target (its own
  position without a group, its ancestor groups otherwise) and the queried world point by
  the same vector leaves the result of \<^verbatim>\<open>getLocalPoint\<close> unchanged.
\<close>

theorem getLocalPoint_translate:
  "getLocalPoint (tr \<lparr> target := translateObject v (target tr) \<rparr>) originX originY
     (x + point_x v) (y + point_y v)
   = getLocalPoint tr originX originY x y"
  unfolding getLocalPoint_def
  by (simp add: normalizePoint_translate translateObject_fields)

text \<open>
  The example object, the example object inside a scaling group, and the example object
  turned by half a turn inside a group, each translated with the world point.
\<close>

lemma groupedObject_values:
  "getLocalPoint \<lparr> target = unrotatedGroupedObject, corner = ''br'' \<rparr>
     OriginCenter OriginCenter 240 245 = Inr (Point 5 5)"
  "getLocalPoint \<lparr> target = groupedObject, corner = ''br'' \<rparr>
     OriginCenter OriginCenter 100 100 = Inr (Point (- 2) 3)"
  by (simp_all add: getLocalPoint_def normalizePoint_def groupedObject_def
        unrotatedGroupedObject_def exampleObject_def exampleControl_def sendPointToPlane_def
        point_rotate_def point_subtract_def point_add_def rotateVector_def)

theorem getLocalPoint_translate_witness:
  "getLocalPoint (exampleTransform \<lparr> target := translateObject (Point 7 (- 4)) (target exampleTransform) \<rparr>)
       OriginCenter OriginCenter (108 + 7) (100 + - 4)
     = getLocalPoint exampleTransform OriginCenter OriginCenter 108 100 \<and>
   getLocalPoint \<lparr> target = translateObject (Point 7 (- 4)) unrotatedGroupedObject, corner = ''br'' \<rparr>
       OriginCenter OriginCenter (240 + 7) (245 + - 4)
     = Inr (Point 5 5) \<and>
   getLocalPoint \<lparr> target = translateObject (Point 10 0) groupedObject, corner = ''br'' \<rparr>
       OriginCenter OriginCenter (100 + 10) (100 + 0)
     = Inr (Point (- 2) 3)"
  using groupedObject_values
    getLocalPoint_translate
      [where tr = exampleTransform and v = "Point 7 (- 4)" and originX = OriginCenter
         and originY = OriginCenter and x = 108 and y = 100]
    getLocalPoint_translate
      [where tr = "\<lparr> target = unrotatedGroupedObject, corner = ''br'' \<rparr>"
         and v = "Point 7 (- 4)" and originX = OriginCenter and originY = OriginCenter
         and x = 240 and y = 245]
    getLocalPoint_translate
      [where tr = "\<lparr> target = groupedObject, corner = ''br'' \<rparr>"
         and v = "Point 10 0" and originX = OriginCenter and originY = OriginCenter
         and x = 100 and y = 100]
  by simp

subsection \<open>Writes of the geometry functions\<close>

lemma unchanged_refl: "unchanged s s"
  by (simp add: unchanged_def)

lemma unchanged_trans: "unchanged s s1 \<Longrightarrow> unchanged s1 s2 \<Longrightarrow> unchanged s s2"
  by (simp add: unchanged_def)

lemma new_Point_frame:
  assumes "new_Point s v = (r, s')"
  shows "unchanged s s'" and "r = point_limit s" and "point_limit s' = Suc r"
    and "points s' r = v" and "objects s' = objects s"
  using assms by (auto simp: new_Point_def unchanged_def)

lemma set_point_x_frame:
  assumes "unchanged s0 s" and "point_limit s0 \<le> r"
  shows "unchanged s0 (set_point_x s r v)"
  using assms by (simp add: unchanged_def set_point_x_def)

lemma set_point_y_frame:
  assumes "unchanged s0 s" and "point_limit s0 \<le> r"
  shows "unchanged s0 (set_point_y s r v)"
  using assms by (simp add: unchanged_def set_point_y_def)

lemma set_point_limit [simp]:
  "point_limit (set_point_x s r v) = point_limit s"
  "point_limit (set_point_y s r v) = point_limit s"
  by (simp_all add: set_point_x_def set_point_y_def)

lemma normalizePoint_store_frame:
  assumes "normalizePoint_store s targt pnt originX originY = (r, s')"
  shows "unchanged s s'" and "point_limit s \<le> r" and "r < point_limit s'"
  using assms
  by (auto simp: normalizePoint_store_def new_Point_def unchanged_def Let_def
           split: if_splits)

lemma normalizePoint_store_unchanged:
  "unchanged s (snd (normalizePoint_store s targt pnt originX originY))"
  using normalizePoint_store_frame(1) [of s targt pnt originX originY]
  by (cases "normalizePoint_store s targt pnt originX originY") simp

lemma getLocalPoint_store_frame:
  "unchanged s (snd (getLocalPoint_store s targt cornr originX originY x y))"
  "fst (getLocalPoint_store s targt cornr originX originY x y) = Inr r \<Longrightarrow>
     point_limit s \<le> r \<and> r < point_limit (snd (getLocalPoint_store s targt cornr originX originY x y))"
proof -
  obtain pnt s0 where a: "new_Point s (Point x y) = (pnt, s0)"
    by (cases "new_Point s (Point x y)")
  obtain lp s1 where n: "normalizePoint_store s0 targt pnt originX originY = (lp, s1)"
    by (cases "normalizePoint_store s0 targt pnt originX originY")
  have u0: "unchanged s s0" and l0: "point_limit s \<le> point_limit s0"
    using new_Point_frame [OF a] by (simp_all add: unchanged_def)
  have u1: "unchanged s s1"
    using u0 normalizePoint_store_frame(1) [OF n] by (rule unchanged_trans)
  have lp: "point_limit s \<le> lp" "lp < point_limit s1"
    using l0 normalizePoint_store_frame(2,3) [OF n] by simp_all
  have fr: "unchanged s t \<Longrightarrow> unchanged s (set_point_x t lp v)"
           "unchanged s t \<Longrightarrow> unchanged s (set_point_y t lp v)" for t v
    using lp(1) by (simp_all add: set_point_x_frame set_point_y_frame)
  show "unchanged s (snd (getLocalPoint_store s targt cornr originX originY x y))"
    by (simp add: getLocalPoint_store_def a n Let_def fr u1 split: option.splits)
  show "point_limit s \<le> r \<and>
        r < point_limit (snd (getLocalPoint_store s targt cornr originX originY x y))"
    if "fst (getLocalPoint_store s targt cornr originX originY x y) = Inr r"
    using that lp
    by (simp add: getLocalPoint_store_def a n Let_def split: option.splits)
qed

lemma findCornerQuadrant_store_frame:
  "unchanged s (snd (findCornerQuadrant_store s fabricObj contrl))"
  by (simp add: findCornerQuadrant_store_def new_Point_def unchanged_def Let_def)

lemma commonEventInfo_store_frame:
  "unchanged s (snd (commonEventInfo_store s eventData transfrm x y))"
  by (simp add: commonEventInfo_store_def new_Point_def unchanged_def)

text \<open>The functions on the store compute what the functions on values compute.\<close>

lemma normalizePoint_store_value:
  assumes "normalizePoint_store s targt pnt originX originY = (r, s')"
    and "pnt < point_limit s"
  shows "points s' r = normalizePoint (objects s targt) (points s pnt) originX originY"
  using assms
  by (auto simp: normalizePoint_store_def normalizePoint_def new_Point_def Let_def
           split: if_splits)

lemma getLocalPoint_store_value:
  "getLocalPoint \<lparr> target = objects s targt, corner = cornr \<rparr> originX originY x y
     = map_sum id (points (snd (getLocalPoint_store s targt cornr originX originY x y)))
         (fst (getLocalPoint_store s targt cornr originX originY x y))"
proof -
  obtain pnt s0 where a: "new_Point s (Point x y) = (pnt, s0)"
    by (cases "new_Point s (Point x y)")
  obtain lp s1 where n: "normalizePoint_store s0 targt pnt originX originY = (lp, s1)"
    by (cases "normalizePoint_store s0 targt pnt originX originY")
  have p: "pnt < point_limit s0" "points s0 pnt = Point x y" "objects s0 = objects s"
    using new_Point_frame [OF a] by simp_all
  have v: "normalizePoint (objects s targt) (Point x y) originX originY = points s1 lp"
    using normalizePoint_store_value [OF n p(1)] p by simp
  show ?thesis
    by (simp add: getLocalPoint_store_def getLocalPoint_def a n v Let_def
                   set_point_x_def set_point_y_def
             split: option.splits)
qed

lemma findCornerQuadrant_store_value:
  "fst (findCornerQuadrant_store s fabricObj contrl) = findCornerQuadrant (objects s fabricObj) contrl"
  by (simp add: findCornerQuadrant_store_def findCornerQuadrant_def new_Point_def Let_def)

lemma getActionFromCorner_store_value:
  "getActionFromCorner_store getActionName s alreadySelected cornr e targt
     = (getActionFromCorner getActionName alreadySelected cornr e (objects s targt), s)"
  by (simp add: getActionFromCorner_store_def getActionFromCorner_def split: option.splits)

text \<open>
  C10. No function of the file writes to an object: after \<^verbatim>\<open>getLocalPoint\<close>,
  \<^verbatim>\<open>normalizePoint\<close>, \<^verbatim>\<open>findCornerQuadrant\<close>, \<^verbatim>\<open>getActionFromCorner\<close>,
  \<^verbatim>\<open>isLocked\<close> and \<^verbatim>\<open>commonEventInfo\<close> every object and every point that existed
  before the call is as it was, and the point that \<^verbatim>\<open>getLocalPoint\<close> returns is an
  instance created during the call.
\<close>

theorem geometry_functions_read_only:
  "unchanged s (snd (getLocalPoint_store s targt cornr originX originY x y)) \<and>
   (\<forall>r. fst (getLocalPoint_store s targt cornr originX originY x y) = Inr r \<longrightarrow>
        point_limit s \<le> r \<and>
        r < point_limit (snd (getLocalPoint_store s targt cornr originX originY x y))) \<and>
   unchanged s (snd (normalizePoint_store s targt pnt originX originY)) \<and>
   unchanged s (snd (findCornerQuadrant_store s targt contrl)) \<and>
   unchanged s (snd (getActionFromCorner_store getActionName s alreadySelected cornr e targt)) \<and>
   unchanged s (snd (isLocked_store s targt lockKey)) \<and>
   unchanged s (snd (commonEventInfo_store s e transfrm x y))"
  using getLocalPoint_store_frame [of s targt cornr originX originY x y]
  by (simp add: normalizePoint_store_unchanged findCornerQuadrant_store_frame
        getActionFromCorner_store_value isLocked_store_def commonEventInfo_store_frame
        unchanged_refl)

lemma exampleStore_getLocalPoint:
  "fst (getLocalPoint_store exampleStore 0 ''br'' OriginCenter OriginCenter 108 100) = Inr 4"
  "points (snd (getLocalPoint_store exampleStore 0 ''br'' OriginCenter OriginCenter 108 100)) 4
     = Point 3 3"
  by (simp_all add: getLocalPoint_store_def normalizePoint_store_def new_Point_def Let_def
        exampleStore_def exampleObject_def exampleControl_def sendPointToPlane_def
        point_subtract_def set_point_x_def set_point_y_def)

theorem geometry_functions_read_only_witness:
  "fst (getLocalPoint_store exampleStore 0 ''br'' OriginCenter OriginCenter 108 100) = Inr 4 \<and>
   point_limit exampleStore \<le> 4 \<and>
   objects (snd (getLocalPoint_store exampleStore 0 ''br'' OriginCenter OriginCenter 108 100)) 0
     = exampleObject \<and>
   points (snd (getLocalPoint_store exampleStore 0 ''br'' OriginCenter OriginCenter 108 100)) 0
     = Point 0 0"
proof -
  have l: "(0::nat) < point_limit exampleStore"
    by (simp add: exampleStore_def)
  from geometry_functions_read_only
         [of exampleStore 0 "''br''" OriginCenter OriginCenter 108 100 0 exampleControl
             "\<lambda>c e c' t. ''scale''" True "()" LockRotation "()"]
  have "unchanged exampleStore
          (snd (getLocalPoint_store exampleStore 0 ''br'' OriginCenter OriginCenter 108 100))"
    and "point_limit exampleStore \<le> 4"
    by (simp_all add: exampleStore_getLocalPoint(1))
  with l show ?thesis
    by (simp add: unchanged_def exampleStore_getLocalPoint(1)) (simp add: exampleStore_def)
qed

end
